theory Spec2Isabelle
  imports Main "HOL-Library.Sublist"
begin

section \<open>JavaScript values\<close>

text \<open>
  The client is TypeScript compiled to JavaScript, and its checks are written for callers
  and servers that do not respect the declared types (\<open>typeof\<close>, \<open>Array.isArray\<close>,
  truthiness). Request fields and response bodies are therefore JavaScript values.
  Numbers are the integers; \<open>number_toString\<close> below is \<open>Number.prototype.toString\<close> on
  the safe integers, the only numbers the development is meant for. An object is the list
  of its own properties.
\<close>

datatype jsval =
    JUndefined
  | JNull
  | JBool bool
  | JNum int
  | JStr string
  | JArr "jsval list"
  | JObj "(string \<times> jsval) list"

text \<open>ToBoolean: what \<open>!v\<close>, \<open>v && w\<close>, \<open>v || w\<close> and \<open>if (v)\<close> test.\<close>

fun truthy :: "jsval \<Rightarrow> bool" where
  "truthy JUndefined = False"
| "truthy JNull = False"
| "truthy (JBool b) = b"
| "truthy (JNum n) = (n \<noteq> 0)"
| "truthy (JStr s) = (s \<noteq> [])"
| "truthy (JArr xs) = True"
| "truthy (JObj kvs) = True"

fun typeof :: "jsval \<Rightarrow> string" where
  "typeof JUndefined = ''undefined''"
| "typeof JNull = ''object''"
| "typeof (JBool b) = ''boolean''"
| "typeof (JNum n) = ''number''"
| "typeof (JStr s) = ''string''"
| "typeof (JArr xs) = ''object''"
| "typeof (JObj kvs) = ''object''"

fun isArray :: "jsval \<Rightarrow> bool" where
  "isArray (JArr xs) = True"
| "isArray v = False"

text \<open>The elements that \<open>for (const x of v)\<close> visits when \<open>v\<close> is an array.\<close>

fun elements :: "jsval \<Rightarrow> jsval list" where
  "elements (JArr xs) = xs"
| "elements v = []"

text \<open>
  Reading a property that no prototype defines (\<open>error\<close>, \<open>descripiton\<close>, \<open>message\<close>,
  \<open>role\<close>, \<open>content\<close>, \<open>name\<close>): an own property of an object, \<open>undefined\<close> on any other
  value.
\<close>

fun field :: "jsval \<Rightarrow> string \<Rightarrow> jsval" where
  "field (JObj kvs) k = (case map_of kvs k of Some v \<Rightarrow> v | None \<Rightarrow> JUndefined)"
| "field v k = JUndefined"

subsection \<open>Numbers and values as text\<close>

definition digit :: "nat \<Rightarrow> char" where
  "digit d = ''0123456789'' ! d"

fun nat_toString :: "nat \<Rightarrow> string" where
  "nat_toString n =
     (if n < 10 then [digit n] else nat_toString (n div 10) @ [digit (n mod 10)])"

declare nat_toString.simps [simp del]

definition number_toString :: "int \<Rightarrow> string" where
  "number_toString n =
     (if n < 0 then CHR ''-'' # nat_toString (nat (- n)) else nat_toString (nat n))"

fun join :: "string list \<Rightarrow> string" where
  "join [] = []"
| "join [s] = s"
| "join (s # t # ss) = s @ '','' @ join (t # ss)"

text \<open>
  ToString, as a template literal and the \<open>Error\<close> constructor apply it; \<open>None\<close> is the
  TypeError "Cannot convert object to primitive value". An array is the join of its
  elements with \<open>null\<close> and \<open>undefined\<close> left empty. An object is \<open>[object Object]\<close> through
  \<open>Object.prototype.toString\<close>, unless an own property \<open>toString\<close> hides that method:
  the own property of a data object is not callable, \<open>valueOf\<close> gives back the object, and
  the conversion fails.
\<close>

fun sequence :: "'a option list \<Rightarrow> 'a list option" where
  "sequence [] = Some []"
| "sequence (None # xs) = None"
| "sequence (Some x # xs) = (case sequence xs of None \<Rightarrow> None | Some ys \<Rightarrow> Some (x # ys))"

fun toString :: "jsval \<Rightarrow> string option" where
  "toString JUndefined = Some ''undefined''"
| "toString JNull = Some ''null''"
| "toString (JBool b) = Some (if b then ''true'' else ''false'')"
| "toString (JNum n) = Some (number_toString n)"
| "toString (JStr s) = Some s"
| "toString (JArr xs) =
     (case sequence (map (\<lambda>x. if x = JUndefined \<or> x = JNull then Some [] else toString x) xs) of
        None \<Rightarrow> None
      | Some ss \<Rightarrow> Some (join ss))"
| "toString (JObj kvs) =
     (if ''toString'' \<in> fst ` set kvs then None else Some ''[object Object]'')"

section \<open>Errors\<close>

text \<open>
  \<open>AISearchAPIError\<close> (types.js): \<open>message\<close> is set by \<open>super(description)\<close>,
  \<open>statusCode\<close> and \<open>response\<close> are stored as given (\<open>None\<close> and \<open>JUndefined\<close> when the
  argument is left out), and \<open>error\<close> is \<open>{descripiton: description}\<close>.
\<close>

record AISearchAPIError =
  message :: string
  statusCode :: "int option"
  response :: jsval
  descripiton :: jsval

text \<open>
  What a \<open>throw\<close> carries: an \<open>Error\<close> that is not an \<open>AISearchAPIError\<close> (its name and
  message), an \<open>AISearchAPIError\<close>, or a value that is no \<open>Error\<close> at all.
\<close>

datatype thrown =
    JsError string string
  | APIError AISearchAPIError
  | NonError jsval

definition typeError :: thrown where
  "typeError = JsError ''TypeError'' ''Cannot convert object to primitive value''"

text \<open>
  \<open>new AISearchAPIError(description, statusCode, response)\<close>. \<open>Error\<close> converts a
  message that is not \<open>undefined\<close> with ToString, which can throw.
\<close>

definition new_AISearchAPIError :: "jsval \<Rightarrow> int option \<Rightarrow> jsval \<Rightarrow> thrown + AISearchAPIError" where
  "new_AISearchAPIError description sc resp =
     (case (if description = JUndefined then Some [] else toString description) of
        None \<Rightarrow> Inl typeError
      | Some msg \<Rightarrow>
          Inr \<lparr>message = msg, statusCode = sc, response = resp, descripiton = description\<rparr>)"

text \<open>\<open>throw new AISearchAPIError(...)\<close>: the error thrown, or the constructor's own.\<close>

definition throw_AISearchAPIError :: "jsval \<Rightarrow> int option \<Rightarrow> jsval \<Rightarrow> thrown" where
  "throw_AISearchAPIError description sc resp =
     (case new_AISearchAPIError description sc resp of Inl e \<Rightarrow> e | Inr e \<Rightarrow> APIError e)"

section \<open>Configuration and construction\<close>

text \<open>
  \<open>ClientConfig\<close> (types.d.ts). The constructor makes no \<open>typeof\<close> check, so the fields
  have their declared types; \<open>None\<close> is a field left out.
\<close>

record ClientConfig =
  apiKey :: "string option"
  baseUrl :: "string option"
  timeout :: "int option"

record AISearchAPIClient =
  this_apiKey :: string
  this_baseUrl :: string
  this_timeout :: int

text \<open>\<open>a || b\<close> on an optional string and an optional number.\<close>

definition or_string :: "string option \<Rightarrow> string \<Rightarrow> string" where
  "or_string a b = (case a of None \<Rightarrow> b | Some s \<Rightarrow> if s = [] then b else s)"

definition or_number :: "int option \<Rightarrow> int \<Rightarrow> int" where
  "or_number a b = (case a of None \<Rightarrow> b | Some n \<Rightarrow> if n = 0 then b else n)"

definition constructor :: "ClientConfig \<Rightarrow> thrown + AISearchAPIClient" where
  "constructor config =
     (case apiKey config of
        None \<Rightarrow> Inl (JsError ''Error'' ''API key is required'')
      | Some k \<Rightarrow>
          if k = [] then Inl (JsError ''Error'' ''API key is required'')
          else Inr \<lparr>this_apiKey = k,
                    this_baseUrl = or_string (baseUrl config) ''https://api.aisearchapi.io'',
                    this_timeout = or_number (timeout config) 30000\<rparr>)"

section \<open>Search requests and their validation\<close>

text \<open>
  \<open>SearchRequest\<close> (types.d.ts): \<open>prompt\<close>, \<open>context\<close> and \<open>response_type\<close>.
  \<open>validateSearchRequest\<close> checks the run-time types itself, so each field is any
  JavaScript value, \<open>JUndefined\<close> when the caller left it out.
\<close>

record SearchRequest =
  rq_prompt :: jsval
  rq_context :: jsval
  rq_response_type :: jsval

text \<open>
  \<open>message.role\<close> and \<open>message.content\<close> on an element of the context array, and
  \<open>errorData.error\<close> on a parsed body: reading a property of \<open>null\<close> or \<open>undefined\<close>
  throws a TypeError.
\<close>

definition getProp :: "jsval \<Rightarrow> string \<Rightarrow> thrown + jsval" where
  "getProp v k =
     (if v = JUndefined \<or> v = JNull
      then Inl (JsError ''TypeError''
                 (''Cannot read properties of '' @ (if v = JNull then ''null'' else ''undefined'')))
      else Inr (field v k))"

definition role_error :: thrown where
  \<open>role_error = JsError ''Error'' ''Each context message must have role "user"''\<close>

definition content_error :: thrown where
  "content_error = JsError ''Error'' ''Each context message must have content as a string''"

definition response_type_error :: thrown where
  \<open>response_type_error = JsError ''Error'' ''response_type must be either "text" or "markdown"''\<close>

text \<open>The loop \<open>for (const message of request.context)\<close>; the first bad element throws.\<close>

fun validateMessages :: "jsval list \<Rightarrow> thrown + unit" where
  "validateMessages [] = Inr ()"
| "validateMessages (m # ms) =
     (case getProp m ''role'' of
        Inl e \<Rightarrow> Inl e
      | Inr role \<Rightarrow>
          if \<not> truthy role \<or> role \<noteq> JStr ''user'' then Inl role_error
          else (case getProp m ''content'' of
                  Inl e \<Rightarrow> Inl e
                | Inr content \<Rightarrow>
                    if \<not> truthy content \<or> typeof content \<noteq> ''string'' then Inl content_error
                    else validateMessages ms))"

definition validateSearchRequest :: "SearchRequest \<Rightarrow> thrown + unit" where
  "validateSearchRequest request =
     (if \<not> truthy (rq_prompt request) \<or> typeof (rq_prompt request) \<noteq> ''string''
      then Inl (JsError ''Error'' ''Prompt is required and must be a string'')
      else
        (case (if truthy (rq_context request)
               then (if \<not> isArray (rq_context request)
                     then Inl (JsError ''Error'' ''Context must be an array of chat messages'')
                     else validateMessages (elements (rq_context request)))
               else Inr ()) of
           Inl e \<Rightarrow> Inl e
         | Inr _ \<Rightarrow>
             if truthy (rq_response_type request)
                \<and> rq_response_type request \<notin> set [JStr ''text'', JStr ''markdown'']
             then Inl response_type_error
             else Inr ()))"

section \<open>The transport and its timer\<close>

text \<open>
  \<open>fetch\<close>, \<open>setTimeout\<close> and \<open>clearTimeout\<close> are the platform's. The transport is a
  parameter: given the URL and the options it answers with a response, rejects with what
  it throws, or is overtaken by the timer, whose callback aborts the request and makes
  \<open>fetch\<close> reject with an \<open>AbortError\<close>. The body of a request is the value that
  \<open>JSON.stringify\<close> writes out, the body of a response the value that \<open>response.json()\<close>
  reads, or what that call throws. \<open>ok\<close> is the flag of the response that the platform
  sets for a status from 200 to 299; the client reads the flag, not the range.
\<close>

record RequestInit =
  req_method :: string
  headers :: "(string \<times> string) list"
  body :: "jsval option"

record HttpResponse =
  ok :: bool
  status :: int
  json :: "thrown + jsval"

datatype fetch_outcome =
    Responds HttpResponse
  | Rejects thrown
  | TimerFires

type_synonym transport = "string \<Rightarrow> RequestInit \<Rightarrow> fetch_outcome"

text \<open>The timers that are armed, the next timer id, and the calls of \<open>fetch\<close> so far.\<close>

record world =
  pendingTimers :: "nat list"
  nextTimerId :: nat
  fetched :: "(string \<times> RequestInit) list"

definition setTimeout :: "world \<Rightarrow> nat \<times> world" where
  "setTimeout w =
     (nextTimerId w,
      w\<lparr>pendingTimers := nextTimerId w # pendingTimers w, nextTimerId := Suc (nextTimerId w)\<rparr>)"

definition clearTimeout :: "nat \<Rightarrow> world \<Rightarrow> world" where
  "clearTimeout i w = w\<lparr>pendingTimers := removeAll i (pendingTimers w)\<rparr>"

text \<open>A timer that fires is no longer armed.\<close>

definition timerFired :: "nat \<Rightarrow> world \<Rightarrow> world" where
  "timerFired i w = w\<lparr>pendingTimers := removeAll i (pendingTimers w)\<rparr>"

definition abortError :: thrown where
  "abortError = JsError ''AbortError'' ''This operation was aborted''"

text \<open>\<open>(error as any).name\<close> in the catch block of \<open>makeRequest\<close>.\<close>

fun errorName :: "thrown \<Rightarrow> thrown + jsval" where
  "errorName (JsError n m) = Inr (JStr n)"
| "errorName (APIError e) = Inr (JStr ''AISearchAPIError'')"
| "errorName (NonError v) = getProp v ''name''"

definition timeout_error :: "AISearchAPIClient \<Rightarrow> thrown" where
  "timeout_error this =
     throw_AISearchAPIError
       (JStr (''Request timeout after '' @ number_toString (this_timeout this) @ ''ms''))
       None JUndefined"

definition makeRequest_catch ::
  "AISearchAPIClient \<Rightarrow> nat \<Rightarrow> thrown \<Rightarrow> world \<Rightarrow> (thrown + HttpResponse) \<times> world" where
  "makeRequest_catch this timeoutId error w =
     (let w' = clearTimeout timeoutId w
      in case errorName error of
           Inl e \<Rightarrow> (Inl e, w')
         | Inr n \<Rightarrow>
             if n = JStr ''AbortError'' then (Inl (timeout_error this), w')
             else (Inl error, w'))"

definition makeRequest ::
  "AISearchAPIClient \<Rightarrow> transport \<Rightarrow> string \<Rightarrow> RequestInit \<Rightarrow> world
     \<Rightarrow> (thrown + HttpResponse) \<times> world" where
  "makeRequest this fetch url options w =
     (let (timeoutId, w1) = setTimeout w;
          w2 = w1\<lparr>fetched := fetched w1 @ [(url, options)]\<rparr>
      in case fetch url options of
           Responds res \<Rightarrow> (Inr res, clearTimeout timeoutId w2)
         | Rejects error \<Rightarrow> makeRequest_catch this timeoutId error w2
         | TimerFires \<Rightarrow> makeRequest_catch this timeoutId abortError (timerFired timeoutId w2))"

section \<open>Error responses\<close>

text \<open>
  The \<open>try\<close> block of \<open>handleErrorResponse\<close> once the body is parsed: the value of
  \<open>errorMessage\<close> after it. \<open>errorData.error\<close> throws on \<open>null\<close>, the empty \<open>catch\<close>
  swallows that, and \<open>errorMessage\<close> keeps its value.
\<close>

definition bodyMessage :: "jsval \<Rightarrow> jsval \<Rightarrow> jsval" where
  "bodyMessage errorMessage errorData =
     (case getProp errorData ''error'' of
        Inl e \<Rightarrow> errorMessage
      | Inr err \<Rightarrow>
          if truthy err \<and> truthy (field err ''descripiton'') then field err ''descripiton''
          else if truthy err \<and> typeof err = ''string'' then err
          else if truthy (field errorData ''message'') then field errorData ''message''
          else errorMessage)"

text \<open>The \<open>switch (response.status)\<close>.\<close>

definition statusMessage :: "int \<Rightarrow> jsval \<Rightarrow> jsval" where
  "statusMessage st errorMessage =
     (if st = 401 then JStr ''Unauthorized: Please check your API key''
      else if st = 429 then JStr ''Too many requests: Please slow down your request rate''
      else if st = 433
        then JStr ''Account is at or over message quota: Please check your usage limits''
      else if st = 500 then JStr ''Server error: Please try again later''
      else if st = 503 then JStr ''Service unavailable: The API is temporarily down''
      else errorMessage)"

text \<open>\<open>handleErrorResponse\<close> is a \<open>Promise<never>\<close>: what it throws.\<close>

definition handleErrorResponse :: "HttpResponse \<Rightarrow> thrown + unit" where
  "handleErrorResponse res =
     (let errorMessage = JStr (''HTTP '' @ number_toString (status res));
          (errorMessage, errorData) =
            (case json res of
               Inl e \<Rightarrow> (errorMessage, JUndefined)
             | Inr d \<Rightarrow> (bodyMessage errorMessage d, d));
          errorMessage = statusMessage (status res) errorMessage
      in Inl (throw_AISearchAPIError errorMessage (Some (status res)) errorData))"

section \<open>The two operations\<close>

text \<open>
  The object literal \<open>body\<close> of \<open>search\<close>: spreading \<open>request.context && {...}\<close> adds the
  property when the field is truthy and nothing otherwise.
\<close>

definition search_body :: "SearchRequest \<Rightarrow> jsval" where
  "search_body request =
     JObj ([(''prompt'', rq_prompt request)]
           @ (if truthy (rq_context request) then [(''context'', rq_context request)] else [])
           @ (if truthy (rq_response_type request)
              then [(''response_type'', rq_response_type request)] else []))"

text \<open>
  The \<open>catch\<close> block of both operations: an \<open>AISearchAPIError\<close> is thrown again, anything
  else is wrapped.
\<close>

fun rethrow :: "string \<Rightarrow> thrown \<Rightarrow> thrown" where
  "rethrow what (APIError e) = APIError e"
| "rethrow what (JsError n m) = throw_AISearchAPIError (JStr (what @ m)) None JUndefined"
| "rethrow what (NonError v) =
     throw_AISearchAPIError (JStr (what @ ''Unknown error'')) None JUndefined"

text \<open>The \<open>try\<close> block of both operations, after the request is made.\<close>

definition receive :: "(thrown + HttpResponse) \<Rightarrow> thrown + jsval" where
  "receive r =
     (case r of
        Inl e \<Rightarrow> Inl e
      | Inr res \<Rightarrow>
          (case (if \<not> ok res then handleErrorResponse res else Inr ()) of
             Inl e \<Rightarrow> Inl e
           | Inr _ \<Rightarrow> json res))"

definition search_options :: "AISearchAPIClient \<Rightarrow> SearchRequest \<Rightarrow> RequestInit" where
  "search_options this request =
     \<lparr>req_method = ''POST'',
      headers = [(''Authorization'', ''Bearer '' @ this_apiKey this),
                 (''Content-Type'', ''application/json'')],
      body = Some (search_body request)\<rparr>"

definition search ::
  "AISearchAPIClient \<Rightarrow> transport \<Rightarrow> SearchRequest \<Rightarrow> world \<Rightarrow> (thrown + jsval) \<times> world" where
  "search this fetch request w =
     (case validateSearchRequest request of
        Inl e \<Rightarrow> (Inl e, w)
      | Inr _ \<Rightarrow>
          (let url = this_baseUrl this @ ''/v1/search'';
               (r, w') = makeRequest this fetch url (search_options this request) w
           in case receive r of
                Inl e \<Rightarrow> (Inl (rethrow ''Search request failed: '' e), w')
              | Inr data \<Rightarrow> (Inr data, w')))"

definition balance_options :: "AISearchAPIClient \<Rightarrow> RequestInit" where
  "balance_options this =
     \<lparr>req_method = ''GET'',
      headers = [(''Authorization'', ''Bearer '' @ this_apiKey this)],
      body = None\<rparr>"

definition balance ::
  "AISearchAPIClient \<Rightarrow> transport \<Rightarrow> world \<Rightarrow> (thrown + jsval) \<times> world" where
  "balance this fetch w =
     (let url = this_baseUrl this @ ''/v1/balance'';
          (r, w') = makeRequest this fetch url (balance_options this) w
      in case receive r of
           Inl e \<Rightarrow> (Inl (rethrow ''Balance request failed: '' e), w')
         | Inr data \<Rightarrow> (Inr data, w'))"

section \<open>The specification's words\<close>

text \<open>
  The definitions of this section are not the client's code. They write down the terms in
  which the specification speaks of the client, for the theorems to compare with the
  code above.
\<close>

text \<open>
  The two error kinds: an InvalidArgument is an \<open>Error\<close> that is not an
  \<open>AISearchAPIError\<close>, a NormalizedError is an \<open>AISearchAPIError\<close>.
\<close>

fun invalidArgument :: "thrown \<Rightarrow> bool" where
  "invalidArgument (JsError n m) = True"
| "invalidArgument (APIError e) = False"
| "invalidArgument (NonError v) = False"

fun isString :: "jsval \<Rightarrow> bool" where
  "isString (JStr s) = True"
| "isString v = False"

fun stringOf :: "jsval \<Rightarrow> string" where
  "stringOf (JStr s) = s"
| "stringOf v = []"

fun nonEmptyString :: "jsval \<Rightarrow> bool" where
  "nonEmptyString (JStr s) = (s \<noteq> [])"
| "nonEmptyString v = False"

definition stringOrFalsy :: "jsval \<Rightarrow> bool" where
  "stringOrFalsy v = (isString v \<or> \<not> truthy v)"

text \<open>The status codes with a fixed message.\<close>

definition fixedMessage :: "int \<Rightarrow> string option" where
  "fixedMessage st =
     (if st = 401 then Some ''Unauthorized: Please check your API key''
      else if st = 429 then Some ''Too many requests: Please slow down your request rate''
      else if st = 433
        then Some ''Account is at or over message quota: Please check your usage limits''
      else if st = 500 then Some ''Server error: Please try again later''
      else if st = 503 then Some ''Service unavailable: The API is temporarily down''
      else None)"

text \<open>
  The precedence of the specification for a parsed body: the string of
  \<open>{error: {descripiton: <string>}}\<close>, else the string of \<open>{error: <string>}\<close>, else
  the string of \<open>{message: <string>}\<close>, else \<open>HTTP {status}\<close>; a fixed message
  overrides it.
\<close>

definition spec_bodyMessage :: "int \<Rightarrow> jsval \<Rightarrow> string" where
  "spec_bodyMessage st d =
     (if isString (field (field d ''error'') ''descripiton'')
        then stringOf (field (field d ''error'') ''descripiton'')
      else if isString (field d ''error'') then stringOf (field d ''error'')
      else if isString (field d ''message'') then stringOf (field d ''message'')
      else ''HTTP '' @ number_toString st)"

definition spec_errorMessage :: "int \<Rightarrow> jsval \<Rightarrow> string" where
  "spec_errorMessage st d =
     (case fixedMessage st of Some m \<Rightarrow> m | None \<Rightarrow> spec_bodyMessage st d)"

text \<open>
  A context element the specification accepts: its role is exactly \<open>user\<close> and its
  content a non-empty string.
\<close>

definition goodMessage :: "jsval \<Rightarrow> bool" where
  "goodMessage m = (field m ''role'' = JStr ''user'' \<and> nonEmptyString (field m ''content''))"

fun badContext :: "jsval \<Rightarrow> bool" where
  "badContext (JArr ms) = list_ex (\<lambda>m. \<not> goodMessage m) ms"
| "badContext v = True"

text \<open>
  A request that violates a constraint of the specification: the prompt is missing, empty
  or no string; a context is present and is no sequence or has a bad element; a
  response type is present and is neither \<open>text\<close> nor \<open>markdown\<close>. Present is: not
  \<open>undefined\<close>.
\<close>

definition spec_violation :: "SearchRequest \<Rightarrow> bool" where
  "spec_violation request =
     (\<not> nonEmptyString (rq_prompt request)
      \<or> (rq_context request \<noteq> JUndefined \<and> badContext (rq_context request))
      \<or> (rq_response_type request \<noteq> JUndefined
          \<and> rq_response_type request \<notin> set [JStr ''text'', JStr ''markdown'']))"

text \<open>
  The keys of the JSON text that \<open>JSON.stringify\<close> writes for an object: a property
  whose value is \<open>undefined\<close> is left out.
\<close>

fun json_keys :: "jsval \<Rightarrow> string list" where
  "json_keys (JObj kvs) = map fst (filter (\<lambda>kv. snd kv \<noteq> JUndefined) kvs)"
| "json_keys v = []"

section \<open>Construction\<close>

text \<open>
  Claim C3. A configuration whose \<open>apiKey\<close> is missing or empty makes the constructor
  throw the plain \<open>Error\<close> "API key is required" (an InvalidArgument; the constructor is
  a pure function, so nothing is sent before it). With a non-empty \<open>apiKey\<close> the
  constructor succeeds, keeps the key, and stores \<open>https://api.aisearchapi.io\<close> when
  \<open>baseUrl\<close> is left out and 30000 when \<open>timeout\<close> is left out.
\<close>

theorem constructor_apiKey:
  "(apiKey config = None \<or> apiKey config = Some [] \<longrightarrow>
      (\<exists>e. constructor config = Inl e \<and> invalidArgument e
           \<and> e = JsError ''Error'' ''API key is required''))
   \<and> (\<forall>k. apiKey config = Some k \<and> k \<noteq> [] \<longrightarrow>
         (\<exists>c. constructor config = Inr c \<and> this_apiKey c = k
              \<and> (baseUrl config = None \<longrightarrow> this_baseUrl c = ''https://api.aisearchapi.io'')
              \<and> (timeout config = None \<longrightarrow> this_timeout c = 30000)))"
  by (auto simp: constructor_def or_string_def or_number_def)

theorem constructor_apiKey_witness:
  "(\<exists>e. constructor \<lparr>apiKey = Some [], baseUrl = Some ''http://localhost'', timeout = Some 5\<rparr>
          = Inl e \<and> invalidArgument e)
   \<and> (\<exists>e. constructor \<lparr>apiKey = None, baseUrl = None, timeout = None\<rparr> = Inl e
          \<and> invalidArgument e)
   \<and> (\<exists>c. constructor \<lparr>apiKey = Some ''key'', baseUrl = None, timeout = None\<rparr> = Inr c
          \<and> this_apiKey c = ''key'' \<and> this_baseUrl c = ''https://api.aisearchapi.io''
          \<and> this_timeout c = 30000)"
  using constructor_apiKey
          [of "\<lparr>apiKey = Some [], baseUrl = Some ''http://localhost'', timeout = Some 5\<rparr>"]
        constructor_apiKey [of "\<lparr>apiKey = None, baseUrl = None, timeout = None\<rparr>"]
        constructor_apiKey [of "\<lparr>apiKey = Some ''key'', baseUrl = None, timeout = None\<rparr>"]
  by simp

text \<open>
  Claim C10. A \<open>timeout\<close> of 0 and an empty \<open>baseUrl\<close> are not rejected: with a
  non-empty \<open>apiKey\<close> the constructor succeeds and stores the defaults in their place.
  No client the constructor returns has the timeout 0 or an empty base URL.
\<close>

theorem constructor_falsy_defaults:
  "(\<forall>k. apiKey config = Some k \<and> k \<noteq> [] \<longrightarrow>
      (\<exists>c. constructor config = Inr c
           \<and> (timeout config = Some 0 \<longrightarrow> this_timeout c = 30000)
           \<and> (baseUrl config = Some [] \<longrightarrow> this_baseUrl c = ''https://api.aisearchapi.io'')))
   \<and> (\<forall>c. constructor config = Inr c \<longrightarrow> this_timeout c \<noteq> 0 \<and> this_baseUrl c \<noteq> [])"
  by (auto simp: constructor_def or_string_def or_number_def split: option.splits if_splits)

theorem constructor_falsy_defaults_witness:
  "\<exists>c. constructor \<lparr>apiKey = Some ''key'', baseUrl = Some [], timeout = Some 0\<rparr> = Inr c
        \<and> this_timeout c = 30000 \<and> this_baseUrl c = ''https://api.aisearchapi.io''
        \<and> this_timeout c \<noteq> 0 \<and> this_baseUrl c \<noteq> []"
  using constructor_falsy_defaults
          [of "\<lparr>apiKey = Some ''key'', baseUrl = Some [], timeout = Some 0\<rparr>"]
  by auto

section \<open>The message of an error response\<close>

lemma truthy_stringOrFalsy: "stringOrFalsy v \<Longrightarrow> truthy v = nonEmptyString v"
  by (cases v) (simp_all add: stringOrFalsy_def)

lemma JStr_stringOf: "nonEmptyString v \<Longrightarrow> JStr (stringOf v) = v"
  by (cases v) simp_all

lemma truthy_string: "(truthy v \<and> typeof v = ''string'') = nonEmptyString v"
  by (cases v) auto

lemma truthy_field: "truthy (field v k) \<Longrightarrow> truthy v"
  by (cases v) simp_all

lemma throw_JStr:
  "throw_AISearchAPIError (JStr s) sc r
     = APIError \<lparr>message = s, statusCode = sc, response = r, descripiton = JStr s\<rparr>"
  by (simp add: throw_AISearchAPIError_def new_AISearchAPIError_def)

lemma statusMessage_fixed:
  "statusMessage st v = (case fixedMessage st of Some m \<Rightarrow> JStr m | None \<Rightarrow> v)"
  by (simp add: statusMessage_def fixedMessage_def)

text \<open>
  When the two fields the code tests for truthiness only hold strings or falsy values,
  the \<open>try\<close> block picks the first non-empty string.
\<close>

lemma bodyMessage_strings:
  assumes "stringOrFalsy (field (field d ''error'') ''descripiton'')"
    and "stringOrFalsy (field d ''message'')"
  shows "bodyMessage (JStr fallback) d =
     JStr (if nonEmptyString (field (field d ''error'') ''descripiton'')
             then stringOf (field (field d ''error'') ''descripiton'')
           else if nonEmptyString (field d ''error'') then stringOf (field d ''error'')
           else if nonEmptyString (field d ''message'') then stringOf (field d ''message'')
           else fallback)"
proof (cases "d = JUndefined \<or> d = JNull")
  case True
  then show ?thesis by (auto simp: bodyMessage_def getProp_def)
next
  case False
  let ?e = "field d ''error''"
  have get: "getProp d ''error'' = Inr ?e"
    using False by (simp add: getProp_def)
  have c1: "(truthy ?e \<and> truthy (field ?e ''descripiton''))
              = nonEmptyString (field ?e ''descripiton'')"
    using assms(1) truthy_field [of ?e "''descripiton''"] by (auto simp: truthy_stringOrFalsy)
  have c3: "truthy (field d ''message'') = nonEmptyString (field d ''message'')"
    using assms(2) by (rule truthy_stringOrFalsy)
  show ?thesis
    unfolding bodyMessage_def get sum.case c1 c3 truthy_string
    by (simp add: JStr_stringOf)
qed

lemma handleErrorResponse_parsed:
  assumes "json res = Inr d"
    and "bodyMessage (JStr (''HTTP '' @ number_toString (status res))) d = JStr s"
    and "fixedMessage (status res) = None"
  shows "handleErrorResponse res
     = Inl (APIError \<lparr>message = s, statusCode = Some (status res), response = d,
                       descripiton = JStr s\<rparr>)"
  using assms by (simp add: handleErrorResponse_def statusMessage_fixed throw_JStr)

text \<open>
  Claim C1, as the specification states it, fails: it takes every string, the code only
  a non-empty one. For the status 400 and the body
  \<open>{"error": "", "message": "Bad request"}\<close> the specification's precedence gives the
  empty string of \<open>error\<close>, the code \<open>Bad request\<close>.
\<close>

theorem spec_errorMessage_counterexample:
  "\<exists>e. handleErrorResponse
          \<lparr>ok = False, status = 400,
           json = Inr (JObj [(''error'', JStr []), (''message'', JStr ''Bad request'')])\<rparr>
        = Inl (APIError e)
      \<and> message e = ''Bad request''
      \<and> spec_errorMessage 400 (JObj [(''error'', JStr []), (''message'', JStr ''Bad request'')])
          = []
      \<and> message e
          \<noteq> spec_errorMessage 400
               (JObj [(''error'', JStr []), (''message'', JStr ''Bad request'')])"
  by (simp add: handleErrorResponse_def bodyMessage_def getProp_def statusMessage_def
      throw_JStr spec_errorMessage_def spec_bodyMessage_def fixedMessage_def)

text \<open>
  Claim C1, amended. For the status codes 401, 429, 433, 500 and 503 the message is the
  fixed string, whatever the body. For any other status and a body that parses, in which
  \<open>error.descripiton\<close> and \<open>message\<close> are strings or falsy where present, the message
  is the first non-empty string among \<open>error.descripiton\<close>, \<open>error\<close> and \<open>message\<close>,
  and \<open>HTTP {status}\<close> when there is none: an empty string counts as absent.
\<close>

theorem handleErrorResponse_message:
  "(\<forall>m. fixedMessage (status res) = Some m \<longrightarrow>
       (\<exists>e. handleErrorResponse res = Inl (APIError e) \<and> message e = m))
   \<and> (\<forall>d. fixedMessage (status res) = None \<and> json res = Inr d
          \<and> stringOrFalsy (field (field d ''error'') ''descripiton'')
          \<and> stringOrFalsy (field d ''message'') \<longrightarrow>
       (\<exists>e. handleErrorResponse res = Inl (APIError e) \<and> message e =
          (if nonEmptyString (field (field d ''error'') ''descripiton'')
             then stringOf (field (field d ''error'') ''descripiton'')
           else if nonEmptyString (field d ''error'') then stringOf (field d ''error'')
           else if nonEmptyString (field d ''message'') then stringOf (field d ''message'')
           else ''HTTP '' @ number_toString (status res))))"
proof (intro conjI allI impI)
  fix m assume "fixedMessage (status res) = Some m"
  then show "\<exists>e. handleErrorResponse res = Inl (APIError e) \<and> message e = m"
    by (cases "json res")
       (simp_all add: handleErrorResponse_def statusMessage_fixed throw_JStr)
next
  fix d
  assume a: "fixedMessage (status res) = None \<and> json res = Inr d
          \<and> stringOrFalsy (field (field d ''error'') ''descripiton'')
          \<and> stringOrFalsy (field d ''message'')"
  then have b: "bodyMessage (JStr (''HTTP '' @ number_toString (status res))) d =
     JStr (if nonEmptyString (field (field d ''error'') ''descripiton'')
             then stringOf (field (field d ''error'') ''descripiton'')
           else if nonEmptyString (field d ''error'') then stringOf (field d ''error'')
           else if nonEmptyString (field d ''message'') then stringOf (field d ''message'')
           else ''HTTP '' @ number_toString (status res))"
    by (intro bodyMessage_strings) simp_all
  from a show "\<exists>e. handleErrorResponse res = Inl (APIError e) \<and> message e =
          (if nonEmptyString (field (field d ''error'') ''descripiton'')
             then stringOf (field (field d ''error'') ''descripiton'')
           else if nonEmptyString (field d ''error'') then stringOf (field d ''error'')
           else if nonEmptyString (field d ''message'') then stringOf (field d ''message'')
           else ''HTTP '' @ number_toString (status res))"
    using handleErrorResponse_parsed [OF _ b] by simp
qed

theorem handleErrorResponse_message_witness:
  "(\<exists>e. handleErrorResponse
          \<lparr>ok = False, status = 401,
           json = Inr (JObj [(''error'', JObj [(''descripiton'', JStr ''bad key'')])])\<rparr>
        = Inl (APIError e) \<and> message e = ''Unauthorized: Please check your API key'')
   \<and> (\<exists>e. handleErrorResponse
          \<lparr>ok = False, status = 404,
           json = Inr (JObj [(''error'', JObj [(''descripiton'', JStr ''no such index'')]),
                             (''message'', JStr ''not found'')])\<rparr>
        = Inl (APIError e) \<and> message e = ''no such index'')"
  using handleErrorResponse_message
          [of "\<lparr>ok = False, status = 401,
           json = Inr (JObj [(''error'', JObj [(''descripiton'', JStr ''bad key'')])])\<rparr>"]
        handleErrorResponse_message
          [of "\<lparr>ok = False, status = 404,
           json = Inr (JObj [(''error'', JObj [(''descripiton'', JStr ''no such index'')]),
                             (''message'', JStr ''not found'')])\<rparr>"]
  by (simp add: fixedMessage_def stringOrFalsy_def)

lemma number_toString_418: "number_toString 418 = ''418''"
  by (simp add: number_toString_def nat_toString.simps digit_def)

text \<open>
  Claim C6, as the specification states it, fails: the code reads the property
  \<open>descripiton\<close>, and a body that spells it \<open>description\<close> has none. For the status 418
  and the body \<open>{"error": {"description": "teapot"}}\<close> the message is \<open>HTTP 418\<close>.
\<close>

theorem teapot_description_counterexample:
  "(\<exists>e. handleErrorResponse
          \<lparr>ok = False, status = 418,
           json = Inr (JObj [(''error'', JObj [(''description'', JStr ''teapot'')])])\<rparr>
        = Inl (APIError e) \<and> message e = ''HTTP 418'' \<and> statusCode e = Some 418)
   \<and> \<not> (\<exists>e. handleErrorResponse
          \<lparr>ok = False, status = 418,
           json = Inr (JObj [(''error'', JObj [(''description'', JStr ''teapot'')])])\<rparr>
        = Inl (APIError e) \<and> message e = ''teapot'')"
  by (simp add: handleErrorResponse_def bodyMessage_def getProp_def statusMessage_def
      throw_JStr number_toString_418)

text \<open>
  Claim C6, amended. For the status 418 and the body
  \<open>{"error": {"descripiton": "teapot"}}\<close>, the field spelled as the server spells it,
  the error thrown is an \<open>AISearchAPIError\<close> with the message \<open>teapot\<close>, the status code
  418 and the body as its response, and \<open>search\<close> throws that error when the transport
  answers a request with this response.
\<close>

theorem teapot_descripiton:
  "handleErrorResponse
       \<lparr>ok = False, status = 418,
        json = Inr (JObj [(''error'', JObj [(''descripiton'', JStr ''teapot'')])])\<rparr>
     = Inl (APIError
         \<lparr>message = ''teapot'', statusCode = Some 418,
          response = JObj [(''error'', JObj [(''descripiton'', JStr ''teapot'')])],
          descripiton = JStr ''teapot''\<rparr>)
   \<and> fst (search
        \<lparr>this_apiKey = ''key'', this_baseUrl = ''https://h'', this_timeout = 50\<rparr>
        (\<lambda>url options. Responds
           \<lparr>ok = False, status = 418,
            json = Inr (JObj [(''error'', JObj [(''descripiton'', JStr ''teapot'')])])\<rparr>)
        \<lparr>rq_prompt = JStr ''q'', rq_context = JUndefined, rq_response_type = JUndefined\<rparr>
        \<lparr>pendingTimers = [], nextTimerId = 0, fetched = []\<rparr>)
     = Inl (APIError
         \<lparr>message = ''teapot'', statusCode = Some 418,
          response = JObj [(''error'', JObj [(''descripiton'', JStr ''teapot'')])],
          descripiton = JStr ''teapot''\<rparr>)"
proof -
  have h: "handleErrorResponse
       \<lparr>ok = False, status = 418,
        json = Inr (JObj [(''error'', JObj [(''descripiton'', JStr ''teapot'')])])\<rparr>
     = Inl (APIError
         \<lparr>message = ''teapot'', statusCode = Some 418,
          response = JObj [(''error'', JObj [(''descripiton'', JStr ''teapot'')])],
          descripiton = JStr ''teapot''\<rparr>)"
    by (simp add: handleErrorResponse_def bodyMessage_def getProp_def statusMessage_def
        throw_JStr)
  show ?thesis
    unfolding h
    by (simp add: search_def validateSearchRequest_def makeRequest_def setTimeout_def
        clearTimeout_def receive_def h)
qed

section \<open>Validation\<close>

lemma nonEmptyString_truthy: "nonEmptyString v = (truthy v \<and> typeof v = ''string'')"
  by (cases v) auto

lemma validateMessages_step:
  "validateMessages (m # ms) =
     (if goodMessage m then validateMessages ms
      else if m = JUndefined \<or> m = JNull
        then Inl (JsError ''TypeError''
                   (''Cannot read properties of '' @ (if m = JNull then ''null'' else ''undefined'')))
      else if field m ''role'' \<noteq> JStr ''user'' then Inl role_error
      else Inl content_error)"
  by (cases "m = JUndefined \<or> m = JNull")
     (auto simp: goodMessage_def getProp_def nonEmptyString_truthy)

lemma validateMessages_good: "list_all goodMessage ms \<Longrightarrow> validateMessages ms = Inr ()"
  by (induction ms) (simp_all add: validateMessages_step del: validateMessages.simps(2))

lemma validateMessages_bad:
  "list_ex (\<lambda>m. \<not> goodMessage m) ms \<Longrightarrow> \<exists>n msg. validateMessages ms = Inl (JsError n msg)"
proof (induction ms)
  case Nil
  then show ?case by simp
next
  case (Cons m ms)
  show ?case
  proof (cases "goodMessage m")
    case True
    with Cons show ?thesis
      by (simp add: validateMessages_step del: validateMessages.simps(2))
  next
    case False
    then show ?thesis
      by (simp add: validateMessages_step role_error_def content_error_def
               del: validateMessages.simps(2))
  qed
qed

lemma validateSearchRequest_rejects:
  assumes "\<not> nonEmptyString (rq_prompt request)
      \<or> (truthy (rq_context request) \<and> badContext (rq_context request))
      \<or> (truthy (rq_response_type request)
          \<and> rq_response_type request \<notin> set [JStr ''text'', JStr ''markdown''])"
  shows "\<exists>n msg. validateSearchRequest request = Inl (JsError n msg)"
proof (cases "nonEmptyString (rq_prompt request)")
  case False
  then show ?thesis
    by (auto simp: validateSearchRequest_def nonEmptyString_truthy)
next
  case prompt: True
  show ?thesis
  proof (cases "truthy (rq_context request) \<and> badContext (rq_context request)")
    case True
    then have "\<exists>n msg. (if \<not> isArray (rq_context request)
                     then Inl (JsError ''Error'' ''Context must be an array of chat messages'')
                     else validateMessages (elements (rq_context request)))
                  = Inl (JsError n msg)"
      by (cases "rq_context request") (simp_all add: validateMessages_bad)
    then obtain n msg where "(if \<not> isArray (rq_context request)
                     then Inl (JsError ''Error'' ''Context must be an array of chat messages'')
                     else validateMessages (elements (rq_context request)))
                  = Inl (JsError n msg)" by blast
    with True prompt show ?thesis
      unfolding validateSearchRequest_def by (simp add: nonEmptyString_truthy)
  next
    case False
    with assms prompt have rt: "truthy (rq_response_type request)
          \<and> rq_response_type request \<notin> set [JStr ''text'', JStr ''markdown'']" by blast
    show ?thesis
    proof (cases "(if truthy (rq_context request)
               then (if \<not> isArray (rq_context request)
                     then Inl (JsError ''Error'' ''Context must be an array of chat messages'')
                     else validateMessages (elements (rq_context request)))
               else Inr ())")
      case (Inl e)
      have "\<exists>n msg. e = JsError n msg"
      proof (cases "rq_context request")
        case (JArr ms)
        from Inl JArr False show ?thesis
          by (simp add: list_ex_iff list_all_iff validateMessages_good split: if_splits)
      qed (use Inl False in \<open>simp_all split: if_splits\<close>)
      with Inl prompt show ?thesis
        unfolding validateSearchRequest_def by (auto simp: nonEmptyString_truthy)
    next
      case (Inr u)
      with rt prompt show ?thesis
        unfolding validateSearchRequest_def
        by (simp add: nonEmptyString_truthy response_type_error_def)
    qed
  qed
qed

text \<open>
  The other direction: a request with a non-empty string as its prompt passes when its
  context is falsy or a sequence of good elements, and its response type is falsy,
  \<open>text\<close> or \<open>markdown\<close>. A context or response type that is present but falsy
  (\<open>null\<close>, \<open>false\<close>, 0, the empty string) is so treated as left out.
\<close>

lemma validateSearchRequest_passes:
  assumes "nonEmptyString (rq_prompt request)"
    and "\<not> (truthy (rq_context request) \<and> badContext (rq_context request))"
    and "\<not> (truthy (rq_response_type request)
            \<and> rq_response_type request \<notin> set [JStr ''text'', JStr ''markdown''])"
  shows "validateSearchRequest request = Inr ()"
proof -
  have c: "(if truthy (rq_context request)
               then (if \<not> isArray (rq_context request)
                     then Inl (JsError ''Error'' ''Context must be an array of chat messages'')
                     else validateMessages (elements (rq_context request)))
               else Inr ()) = Inr ()"
    using assms(2)
    by (cases "rq_context request")
       (auto simp: list_ex_iff list_all_iff intro: validateMessages_good)
  show ?thesis
    unfolding validateSearchRequest_def c using assms(1,3)
    by (simp add: nonEmptyString_truthy)
qed

lemma validateSearchRequest_accepts:
  assumes "\<not> spec_violation request"
  shows "validateSearchRequest request = Inr ()"
  using assms by (intro validateSearchRequest_passes) (auto simp: spec_violation_def)

text \<open>
  Claim C2, amended. A request is rejected before anything is sent when its prompt is
  missing, empty or no string; when its context is truthy and is no sequence or has an
  element whose role is not exactly \<open>user\<close> or whose content is not a non-empty string;
  or when its response type is truthy and is neither \<open>text\<close> nor \<open>markdown\<close>.
  \<open>search\<close> then throws an \<open>Error\<close> that is not an \<open>AISearchAPIError\<close> and leaves
  the world as it was: no timer armed, \<open>fetch\<close> not called.
\<close>

theorem search_rejects_invalid:
  assumes "\<not> nonEmptyString (rq_prompt request)
      \<or> (truthy (rq_context request) \<and> badContext (rq_context request))
      \<or> (truthy (rq_response_type request)
          \<and> rq_response_type request \<notin> set [JStr ''text'', JStr ''markdown''])"
  shows "\<exists>e. search this fetch request w = (Inl e, w) \<and> invalidArgument e"
proof -
  from validateSearchRequest_rejects [OF assms]
  obtain n msg where "validateSearchRequest request = Inl (JsError n msg)" by blast
  then show ?thesis by (simp add: search_def)
qed

theorem search_rejects_invalid_witness:
  "\<exists>e. search \<lparr>this_apiKey = ''key'', this_baseUrl = ''https://api.aisearchapi.io'',
                 this_timeout = 30000\<rparr>
          (\<lambda>url options. Responds \<lparr>ok = True, status = 200, json = Inr (JObj [])\<rparr>)
          \<lparr>rq_prompt = JStr ''q'',
           rq_context = JArr [JObj [(''role'', JStr ''assistant''), (''content'', JStr ''hi'')]],
           rq_response_type = JUndefined\<rparr>
          \<lparr>pendingTimers = [], nextTimerId = 0, fetched = []\<rparr>
        = (Inl e, \<lparr>pendingTimers = [], nextTimerId = 0, fetched = []\<rparr>)
       \<and> invalidArgument e"
  by (rule search_rejects_invalid) (simp add: goodMessage_def)

text \<open>
  Claim C2, as the specification states it, fails: a response type that is present and is
  the empty string is neither \<open>text\<close> nor \<open>markdown\<close>, yet
  \<open>request.response_type && ...\<close> skips the check. The request is sent, without the
  key, and the answer of the transport is returned.
\<close>

theorem spec_violation_counterexample:
  "spec_violation \<lparr>rq_prompt = JStr ''q'', rq_context = JUndefined, rq_response_type = JStr []\<rparr>
   \<and> search \<lparr>this_apiKey = ''key'', this_baseUrl = ''https://api.aisearchapi.io'',
              this_timeout = 30000\<rparr>
        (\<lambda>url options. Responds \<lparr>ok = True, status = 200, json = Inr (JObj [])\<rparr>)
        \<lparr>rq_prompt = JStr ''q'', rq_context = JUndefined, rq_response_type = JStr []\<rparr>
        \<lparr>pendingTimers = [], nextTimerId = 0, fetched = []\<rparr>
     = (Inr (JObj []),
        \<lparr>pendingTimers = [], nextTimerId = 1,
         fetched = [(''https://api.aisearchapi.io/v1/search'',
                     \<lparr>req_method = ''POST'',
                      headers = [(''Authorization'', ''Bearer key''),
                                 (''Content-Type'', ''application/json'')],
                      body = Some (JObj [(''prompt'', JStr ''q'')])\<rparr>)]\<rparr>)"
  by (simp add: spec_violation_def search_def validateSearchRequest_def makeRequest_def
      setTimeout_def clearTimeout_def receive_def search_options_def search_body_def)

section \<open>The request wrapper\<close>

lemma timeout_error_eq:
  "timeout_error this =
     APIError \<lparr>message = ''Request timeout after '' @ number_toString (this_timeout this) @ ''ms'',
               statusCode = None, response = JUndefined,
               descripiton =
                 JStr (''Request timeout after '' @ number_toString (this_timeout this) @ ''ms'')\<rparr>"
  unfolding timeout_error_def by (rule throw_JStr)

lemma makeRequest_catch_world:
  "snd (makeRequest_catch this i error w) = clearTimeout i w"
  by (simp add: makeRequest_catch_def Let_def split: sum.split)

lemma makeRequest_world:
  "snd (makeRequest this fetch url options w) =
     \<lparr>pendingTimers = removeAll (nextTimerId w) (pendingTimers w),
      nextTimerId = Suc (nextTimerId w),
      fetched = fetched w @ [(url, options)]\<rparr>"
  by (cases "fetch url options")
     (simp_all add: makeRequest_def setTimeout_def makeRequest_catch_world clearTimeout_def
        timerFired_def)

lemma makeRequest_Responds:
  "fetch url options = Responds res \<Longrightarrow> fst (makeRequest this fetch url options w) = Inr res"
  by (simp add: makeRequest_def setTimeout_def)

lemma makeRequest_TimerFires:
  "fetch url options = TimerFires \<Longrightarrow>
     fst (makeRequest this fetch url options w) = Inl (timeout_error this)"
  by (simp add: makeRequest_def setTimeout_def makeRequest_catch_def abortError_def)

lemma makeRequest_Rejects:
  "fetch url options = Rejects (JsError n msg) \<Longrightarrow> n \<noteq> ''AbortError'' \<Longrightarrow>
     fst (makeRequest this fetch url options w) = Inl (JsError n msg)"
  by (simp add: makeRequest_def setTimeout_def makeRequest_catch_def)

lemma search_valid:
  "validateSearchRequest request = Inr () \<Longrightarrow>
   search this fetch request w =
     (case receive (fst (makeRequest this fetch (this_baseUrl this @ ''/v1/search'')
                           (search_options this request) w)) of
        Inl e \<Rightarrow> Inl (rethrow ''Search request failed: '' e)
      | Inr data \<Rightarrow> Inr data,
      snd (makeRequest this fetch (this_baseUrl this @ ''/v1/search'')
             (search_options this request) w))"
  by (simp add: search_def Let_def split: prod.split sum.split)

lemma balance_eq:
  "balance this fetch w =
     (case receive (fst (makeRequest this fetch (this_baseUrl this @ ''/v1/balance'')
                           (balance_options this) w)) of
        Inl e \<Rightarrow> Inl (rethrow ''Balance request failed: '' e)
      | Inr data \<Rightarrow> Inr data,
      snd (makeRequest this fetch (this_baseUrl this @ ''/v1/balance'')
             (balance_options this) w))"
  by (simp add: balance_def Let_def split: prod.split sum.split)

text \<open>
  Claim C5. When the timer fires before the response arrives, \<open>makeRequest\<close> throws an
  \<open>AISearchAPIError\<close> whose message is \<open>Request timeout after {timeout}ms\<close> with the
  client's timeout, and whose status code is absent; \<open>search\<close> and \<open>balance\<close> throw the
  same error. When the response arrives first it is returned and the timer is disarmed.
  On every exit path the timer that the call armed is no longer armed afterwards, and the
  armed timers are those of before when timer ids are fresh.
\<close>

theorem makeRequest_timeout:
  "(fetch url options = TimerFires \<longrightarrow>
      (\<exists>e. fst (makeRequest this fetch url options w) = Inl (APIError e)
          \<and> message e = ''Request timeout after '' @ number_toString (this_timeout this) @ ''ms''
          \<and> statusCode e = None))
   \<and> (\<forall>res. fetch url options = Responds res \<longrightarrow>
          fst (makeRequest this fetch url options w) = Inr res
          \<and> nextTimerId w \<notin> set (pendingTimers (snd (makeRequest this fetch url options w))))
   \<and> nextTimerId w \<notin> set (pendingTimers (snd (makeRequest this fetch url options w)))
   \<and> (nextTimerId w \<notin> set (pendingTimers w) \<longrightarrow>
          pendingTimers (snd (makeRequest this fetch url options w)) = pendingTimers w)
   \<and> (validateSearchRequest request = Inr ()
        \<and> fetch (this_baseUrl this @ ''/v1/search'') (search_options this request) = TimerFires
        \<longrightarrow> (\<exists>e. fst (search this fetch request w) = Inl (APIError e)
          \<and> message e = ''Request timeout after '' @ number_toString (this_timeout this) @ ''ms''
          \<and> statusCode e = None))
   \<and> (fetch (this_baseUrl this @ ''/v1/balance'') (balance_options this) = TimerFires
        \<longrightarrow> (\<exists>e. fst (balance this fetch w) = Inl (APIError e)
          \<and> message e = ''Request timeout after '' @ number_toString (this_timeout this) @ ''ms''
          \<and> statusCode e = None))"
proof -
  have fired: "\<exists>e. timeout_error this = APIError e
          \<and> message e = ''Request timeout after '' @ number_toString (this_timeout this) @ ''ms''
          \<and> statusCode e = None"
    by (simp add: timeout_error_eq)
  have timer: "nextTimerId w \<notin> set (pendingTimers (snd (makeRequest this fetch url options w)))"
    by (simp add: makeRequest_world)
  have restored: "pendingTimers (snd (makeRequest this fetch url options w)) = pendingTimers w"
    if "nextTimerId w \<notin> set (pendingTimers w)"
    using that by (simp add: makeRequest_world)
  have s: "fst (search this fetch request w) = Inl (timeout_error this)"
    if "validateSearchRequest request = Inr ()"
      and "fetch (this_baseUrl this @ ''/v1/search'') (search_options this request) = TimerFires"
    using that by (simp add: search_valid makeRequest_TimerFires receive_def timeout_error_eq)
  have b: "fst (balance this fetch w) = Inl (timeout_error this)"
    if "fetch (this_baseUrl this @ ''/v1/balance'') (balance_options this) = TimerFires"
    using that by (simp add: balance_eq makeRequest_TimerFires receive_def timeout_error_eq)
  show ?thesis
    using fired timer restored s b
    by (auto simp: makeRequest_TimerFires makeRequest_Responds)
qed

lemma number_toString_50: "number_toString 50 = ''50''"
  by (simp add: number_toString_def nat_toString.simps digit_def)

theorem makeRequest_timeout_witness:
  "(\<exists>e. fst (makeRequest
               \<lparr>this_apiKey = ''key'', this_baseUrl = ''https://h'', this_timeout = 50\<rparr>
               (\<lambda>url options. TimerFires) ''https://h/v1/balance''
               \<lparr>req_method = ''GET'', headers = [], body = None\<rparr>
               \<lparr>pendingTimers = [], nextTimerId = 0, fetched = []\<rparr>) = Inl (APIError e)
        \<and> message e = ''Request timeout after 50ms'' \<and> statusCode e = None)
   \<and> (\<exists>e. fst (search
               \<lparr>this_apiKey = ''key'', this_baseUrl = ''https://h'', this_timeout = 50\<rparr>
               (\<lambda>url options. TimerFires)
               \<lparr>rq_prompt = JStr ''q'', rq_context = JUndefined, rq_response_type = JUndefined\<rparr>
               \<lparr>pendingTimers = [], nextTimerId = 0, fetched = []\<rparr>) = Inl (APIError e)
        \<and> message e = ''Request timeout after 50ms'' \<and> statusCode e = None)
   \<and> (\<exists>e. fst (balance
               \<lparr>this_apiKey = ''key'', this_baseUrl = ''https://h'', this_timeout = 50\<rparr>
               (\<lambda>url options. TimerFires)
               \<lparr>pendingTimers = [], nextTimerId = 0, fetched = []\<rparr>) = Inl (APIError e)
        \<and> message e = ''Request timeout after 50ms'' \<and> statusCode e = None)
   \<and> pendingTimers (snd (makeRequest
               \<lparr>this_apiKey = ''key'', this_baseUrl = ''https://h'', this_timeout = 50\<rparr>
               (\<lambda>url options. TimerFires) ''https://h/v1/balance''
               \<lparr>req_method = ''GET'', headers = [], body = None\<rparr>
               \<lparr>pendingTimers = [], nextTimerId = 0, fetched = []\<rparr>)) = []
   \<and> fst (makeRequest
               \<lparr>this_apiKey = ''key'', this_baseUrl = ''https://h'', this_timeout = 50\<rparr>
               (\<lambda>url options. Responds \<lparr>ok = True, status = 200, json = Inr (JObj [])\<rparr>)
               ''https://h/v1/balance''
               \<lparr>req_method = ''GET'', headers = [], body = None\<rparr>
               \<lparr>pendingTimers = [], nextTimerId = 0, fetched = []\<rparr>)
       = Inr \<lparr>ok = True, status = 200, json = Inr (JObj [])\<rparr>
   \<and> pendingTimers (snd (makeRequest
               \<lparr>this_apiKey = ''key'', this_baseUrl = ''https://h'', this_timeout = 50\<rparr>
               (\<lambda>url options. Responds \<lparr>ok = True, status = 200, json = Inr (JObj [])\<rparr>)
               ''https://h/v1/balance''
               \<lparr>req_method = ''GET'', headers = [], body = None\<rparr>
               \<lparr>pendingTimers = [], nextTimerId = 0, fetched = []\<rparr>)) = []"
  using makeRequest_timeout
    [where fetch = "\<lambda>url options. Responds \<lparr>ok = True, status = 200, json = Inr (JObj [])\<rparr>"
       and this = "\<lparr>this_apiKey = ''key'', this_baseUrl = ''https://h'', this_timeout = 50\<rparr>"
       and url = "''https://h/v1/balance''"
       and options = "\<lparr>req_method = ''GET'', headers = [], body = None\<rparr>"
       and w = "\<lparr>pendingTimers = [], nextTimerId = 0, fetched = []\<rparr>"
       and request = "\<lparr>rq_prompt = JStr ''q'', rq_context = JUndefined,
                        rq_response_type = JUndefined\<rparr>"]
    makeRequest_timeout
    [where fetch = "\<lambda>url options. TimerFires"
       and this = "\<lparr>this_apiKey = ''key'', this_baseUrl = ''https://h'', this_timeout = 50\<rparr>"
       and url = "''https://h/v1/balance''"
       and options = "\<lparr>req_method = ''GET'', headers = [], body = None\<rparr>"
       and w = "\<lparr>pendingTimers = [], nextTimerId = 0, fetched = []\<rparr>"
       and request = "\<lparr>rq_prompt = JStr ''q'', rq_context = JUndefined,
                        rq_response_type = JUndefined\<rparr>"]
  by (simp add: number_toString_50 validateSearchRequest_def)

text \<open>
  Claim C7. When \<open>fetch\<close> rejects with an \<open>Error\<close> that is no \<open>AbortError\<close> (a DNS
  failure, a refused connection, a TLS failure), \<open>search\<close> and \<open>balance\<close> throw an
  \<open>AISearchAPIError\<close> with no status code whose message is the underlying message after
  the prefix \<open>Search request failed: \<close>, respectively \<open>Balance request failed: \<close>.
\<close>

theorem transport_failure_message:
  assumes "n \<noteq> ''AbortError''"
  shows "(validateSearchRequest request = Inr ()
          \<and> fetch (this_baseUrl this @ ''/v1/search'') (search_options this request)
              = Rejects (JsError n msg)
          \<longrightarrow> (\<exists>e. fst (search this fetch request w) = Inl (APIError e)
                  \<and> message e = ''Search request failed: '' @ msg
                  \<and> suffix msg (message e) \<and> statusCode e = None))
       \<and> (fetch (this_baseUrl this @ ''/v1/balance'') (balance_options this)
              = Rejects (JsError n msg)
          \<longrightarrow> (\<exists>e. fst (balance this fetch w) = Inl (APIError e)
                  \<and> message e = ''Balance request failed: '' @ msg
                  \<and> suffix msg (message e) \<and> statusCode e = None))"
proof -
  have sfx: "suffix msg (what @ msg)" for what :: string
    by (rule suffix_appendI) simp
  have s: "fst (search this fetch request w)
             = Inl (throw_AISearchAPIError (JStr (''Search request failed: '' @ msg)) None JUndefined)"
    if "validateSearchRequest request = Inr ()"
      and "fetch (this_baseUrl this @ ''/v1/search'') (search_options this request)
              = Rejects (JsError n msg)"
    using that assms by (simp add: search_valid makeRequest_Rejects receive_def)
  have b: "fst (balance this fetch w)
             = Inl (throw_AISearchAPIError (JStr (''Balance request failed: '' @ msg)) None JUndefined)"
    if "fetch (this_baseUrl this @ ''/v1/balance'') (balance_options this)
              = Rejects (JsError n msg)"
    using that assms by (simp add: balance_eq makeRequest_Rejects receive_def)
  show ?thesis
    using s b sfx [of "''Search request failed: ''"] sfx [of "''Balance request failed: ''"]
    by (auto simp: throw_JStr simp del: append.simps)
qed

theorem transport_failure_message_witness:
  "(\<exists>e. fst (search
               \<lparr>this_apiKey = ''key'', this_baseUrl = ''https://h'', this_timeout = 50\<rparr>
               (\<lambda>url options. Rejects (JsError ''TypeError'' ''fetch failed''))
               \<lparr>rq_prompt = JStr ''q'', rq_context = JUndefined, rq_response_type = JUndefined\<rparr>
               \<lparr>pendingTimers = [], nextTimerId = 0, fetched = []\<rparr>) = Inl (APIError e)
        \<and> message e = ''Search request failed: fetch failed''
        \<and> suffix ''fetch failed'' (message e) \<and> statusCode e = None)
   \<and> (\<exists>e. fst (balance
               \<lparr>this_apiKey = ''key'', this_baseUrl = ''https://h'', this_timeout = 50\<rparr>
               (\<lambda>url options. Rejects (JsError ''TypeError'' ''fetch failed''))
               \<lparr>pendingTimers = [], nextTimerId = 0, fetched = []\<rparr>) = Inl (APIError e)
        \<and> message e = ''Balance request failed: fetch failed''
        \<and> suffix ''fetch failed'' (message e) \<and> statusCode e = None)"
  using transport_failure_message
    [where n = "''TypeError''" and msg = "''fetch failed''"
       and fetch = "\<lambda>url options. Rejects (JsError ''TypeError'' ''fetch failed'')"
       and this = "\<lparr>this_apiKey = ''key'', this_baseUrl = ''https://h'', this_timeout = 50\<rparr>"
       and w = "\<lparr>pendingTimers = [], nextTimerId = 0, fetched = []\<rparr>"
       and request = "\<lparr>rq_prompt = JStr ''q'', rq_context = JUndefined,
                        rq_response_type = JUndefined\<rparr>"]
  by (simp add: validateSearchRequest_def)

section \<open>The search operation\<close>

lemma badContext_truthy: "\<not> badContext v \<Longrightarrow> truthy v"
  by (cases v) simp_all

lemma search_fetched:
  "validateSearchRequest request = Inr () \<Longrightarrow>
   fetched (snd (search this fetch request w))
     = fetched w @ [(this_baseUrl this @ ''/v1/search'', search_options this request)]"
  by (simp add: search_valid makeRequest_world)

text \<open>
  Claim C8. For a request that violates no constraint of the specification, \<open>search\<close>
  calls \<open>fetch\<close> once, and the JSON body it sends has the key \<open>prompt\<close>, the key
  \<open>context\<close> exactly when the caller gave a context, an empty sequence included, and
  the key \<open>response_type\<close> exactly when the caller gave one, each with the caller's
  value. A context that is left out is no property of the body, so neither \<open>null\<close> nor
  an empty array is sent for it.
\<close>

theorem search_body_keys:
  assumes "\<not> spec_violation request"
  shows "\<exists>options b.
           fetched (snd (search this fetch request w))
             = fetched w @ [(this_baseUrl this @ ''/v1/search'', options)]
         \<and> body options = Some b
         \<and> ''prompt'' \<in> set (json_keys b) \<and> field b ''prompt'' = rq_prompt request
         \<and> (''context'' \<in> set (json_keys b)) = (rq_context request \<noteq> JUndefined)
         \<and> (''response_type'' \<in> set (json_keys b)) = (rq_response_type request \<noteq> JUndefined)
         \<and> field b ''context'' = rq_context request
         \<and> field b ''response_type'' = rq_response_type request"
proof -
  have v: "validateSearchRequest request = Inr ()"
    using assms by (rule validateSearchRequest_accepts)
  from assms have p: "rq_prompt request \<noteq> JUndefined"
    by (auto simp: spec_violation_def)
  from assms have c: "truthy (rq_context request) = (rq_context request \<noteq> JUndefined)"
    by (auto simp: spec_violation_def dest: badContext_truthy)
  from assms have r: "truthy (rq_response_type request) = (rq_response_type request \<noteq> JUndefined)"
    by (auto simp: spec_violation_def)
  have "''prompt'' \<in> set (json_keys (search_body request))
        \<and> field (search_body request) ''prompt'' = rq_prompt request
        \<and> (''context'' \<in> set (json_keys (search_body request)))
            = (rq_context request \<noteq> JUndefined)
        \<and> (''response_type'' \<in> set (json_keys (search_body request)))
            = (rq_response_type request \<noteq> JUndefined)
        \<and> field (search_body request) ''context'' = rq_context request
        \<and> field (search_body request) ''response_type'' = rq_response_type request"
    unfolding search_body_def c r using p by simp
  moreover have "body (search_options this request) = Some (search_body request)"
    by (simp add: search_options_def)
  ultimately show ?thesis
    using search_fetched [OF v] by blast
qed

theorem search_body_keys_witness:
  "\<exists>options b.
     fetched (snd (search
        \<lparr>this_apiKey = ''key'', this_baseUrl = ''https://h'', this_timeout = 50\<rparr>
        (\<lambda>url options. TimerFires)
        \<lparr>rq_prompt = JStr ''q'', rq_context = JArr [], rq_response_type = JUndefined\<rparr>
        \<lparr>pendingTimers = [], nextTimerId = 0, fetched = []\<rparr>))
       = [] @ [(''https://h'' @ ''/v1/search'', options)]
     \<and> body options = Some b
     \<and> ''prompt'' \<in> set (json_keys b) \<and> field b ''prompt'' = JStr ''q''
     \<and> ''context'' \<in> set (json_keys b)
     \<and> ''response_type'' \<notin> set (json_keys b)
     \<and> field b ''context'' = JArr []
     \<and> field b ''response_type'' = JUndefined"
  using search_body_keys
    [where this = "\<lparr>this_apiKey = ''key'', this_baseUrl = ''https://h'', this_timeout = 50\<rparr>"
       and fetch = "\<lambda>url options. TimerFires"
       and w = "\<lparr>pendingTimers = [], nextTimerId = 0, fetched = []\<rparr>"
       and request = "\<lparr>rq_prompt = JStr ''q'', rq_context = JArr [],
                        rq_response_type = JUndefined\<rparr>"]
  by (simp add: spec_violation_def)

text \<open>
  Claim C9. When the request passes validation and the transport answers with a response
  whose \<open>ok\<close> flag is set (a 2xx status) and whose body parses, \<open>search\<close> returns the
  parsed body itself: the sources in their order, the total time as it came.
\<close>

theorem search_returns_body:
  assumes "validateSearchRequest request = Inr ()"
    and "fetch (this_baseUrl this @ ''/v1/search'') (search_options this request) = Responds res"
    and "ok res"
    and "json res = Inr v"
  shows "fst (search this fetch request w) = Inr v"
  using assms by (simp add: search_valid makeRequest_Responds receive_def)

theorem search_returns_body_witness:
  "fst (search
        \<lparr>this_apiKey = ''key'', this_baseUrl = ''https://h'', this_timeout = 50\<rparr>
        (\<lambda>url options. Responds
           \<lparr>ok = True, status = 200,
            json = Inr (JObj [(''answer'', JStr ''x''),
                              (''sources'', JArr [JStr ''a'', JStr ''b'']),
                              (''response_type'', JStr ''text''),
                              (''total_time'', JNum 12)])\<rparr>)
        \<lparr>rq_prompt = JStr ''q'', rq_context = JUndefined, rq_response_type = JUndefined\<rparr>
        \<lparr>pendingTimers = [], nextTimerId = 0, fetched = []\<rparr>)
     = Inr (JObj [(''answer'', JStr ''x''),
                  (''sources'', JArr [JStr ''a'', JStr ''b'']),
                  (''response_type'', JStr ''text''),
                  (''total_time'', JNum 12)])"
  by (rule search_returns_body [where res = "\<lparr>ok = True, status = 200,
            json = Inr (JObj [(''answer'', JStr ''x''),
                              (''sources'', JArr [JStr ''a'', JStr ''b'']),
                              (''response_type'', JStr ''text''),
                              (''total_time'', JNum 12)])\<rparr>"])
     (simp_all add: validateSearchRequest_def)

section \<open>What an error response throws\<close>

lemma handleErrorResponse_throws: "\<exists>t. handleErrorResponse res = Inl t"
  by (simp add: handleErrorResponse_def Let_def split: prod.split)

lemma throw_AISearchAPIError_carries:
  "throw_AISearchAPIError description sc r = APIError e \<Longrightarrow> statusCode e = sc \<and> response e = r"
  by (auto simp: throw_AISearchAPIError_def new_AISearchAPIError_def typeError_def
      split: option.splits if_splits)

lemma handleErrorResponse_carries:
  assumes "handleErrorResponse res = Inl (APIError e)"
  shows "statusCode e = Some (status res)
       \<and> response e = (case json res of Inl x \<Rightarrow> JUndefined | Inr d \<Rightarrow> d)"
  using assms
  by (cases "json res")
     (auto simp: handleErrorResponse_def Let_def dest: throw_AISearchAPIError_carries)

text \<open>
  Claim C4 fails on the code where the message taken from the body is an object that
  ToString cannot convert. For the status 418 and the body
  \<open>{"message": {"toString": 1}}\<close> the constructor of the error throws a TypeError, so
  \<open>handleErrorResponse\<close> throws no \<open>AISearchAPIError\<close>, and the error that \<open>search\<close>
  makes of it carries neither the status code nor the body.
\<close>

theorem handleErrorResponse_TypeError:
  "handleErrorResponse
       \<lparr>ok = False, status = 418,
        json = Inr (JObj [(''message'', JObj [(''toString'', JNum 1)])])\<rparr>
     = Inl (JsError ''TypeError'' ''Cannot convert object to primitive value'')
   \<and> fst (search
        \<lparr>this_apiKey = ''key'', this_baseUrl = ''https://h'', this_timeout = 50\<rparr>
        (\<lambda>url options. Responds
           \<lparr>ok = False, status = 418,
            json = Inr (JObj [(''message'', JObj [(''toString'', JNum 1)])])\<rparr>)
        \<lparr>rq_prompt = JStr ''q'', rq_context = JUndefined, rq_response_type = JUndefined\<rparr>
        \<lparr>pendingTimers = [], nextTimerId = 0, fetched = []\<rparr>)
     = Inl (APIError
         \<lparr>message = ''Search request failed: Cannot convert object to primitive value'',
          statusCode = None, response = JUndefined,
          descripiton =
            JStr ''Search request failed: Cannot convert object to primitive value''\<rparr>)"
proof -
  have h: "handleErrorResponse
       \<lparr>ok = False, status = 418,
        json = Inr (JObj [(''message'', JObj [(''toString'', JNum 1)])])\<rparr>
     = Inl (JsError ''TypeError'' ''Cannot convert object to primitive value'')"
    by (simp add: handleErrorResponse_def bodyMessage_def getProp_def statusMessage_def
        throw_AISearchAPIError_def new_AISearchAPIError_def typeError_def)
  show ?thesis
    unfolding h
    by (simp add: search_def validateSearchRequest_def makeRequest_def setTimeout_def
        clearTimeout_def receive_def h throw_JStr)
qed

end
